theory Spec2Isabelle
  imports Main "HOL-Library.Sublist"
begin

section \<open>JavaScript strings\<close>

text \<open>
  The configuration code of \<^verbatim>\<open>packages/webpack5/src/configuration/base.ts\<close> uses two
  methods of JavaScript strings: \<^verbatim>\<open>s.includes(pat)\<close> and \<^verbatim>\<open>s.replace(pat, rep)\<close>
  with a string pattern. Both rest on the position of the first occurrence of the
  pattern; the empty pattern occurs at position 0 of every string.
\<close>

fun indexOf :: "string \<Rightarrow> string \<Rightarrow> nat option" where
  "indexOf [] pat = (if pat = [] then Some 0 else None)"
| "indexOf (c # cs) pat =
     (if prefix pat (c # cs) then Some 0 else map_option Suc (indexOf cs pat))"

definition str_includes :: "string \<Rightarrow> string \<Rightarrow> bool" where
  "str_includes s pat = (indexOf s pat \<noteq> None)"

text \<open>
  The replacement text of \<^verbatim>\<open>replace\<close> is a template even when the pattern is a string:
  \<^verbatim>\<open>$$\<close> stands for a dollar sign, \<^verbatim>\<open>$&\<close> for the matched text, \<^verbatim>\<open>$`\<close> for the text before
  the match and \<^verbatim>\<open>$'\<close> for the text after it. A string pattern has no capture groups, so
  every other use of the dollar sign is kept as it is.
\<close>

fun getSubstitution :: "string \<Rightarrow> string \<Rightarrow> string \<Rightarrow> string \<Rightarrow> string" where
  "getSubstitution matched preceding following [] = []"
| "getSubstitution matched preceding following [c] = [c]"
| "getSubstitution matched preceding following (c # d # r) =
     (if c = CHR ''$'' \<and> d = CHR ''$'' then CHR ''$'' # getSubstitution matched preceding following r
      else if c = CHR ''$'' \<and> d = CHR ''&'' then matched @ getSubstitution matched preceding following r
      else if c = CHR ''$'' \<and> d = CHR 0x60 then preceding @ getSubstitution matched preceding following r
      else if c = CHR ''$'' \<and> d = CHR 0x27 then following @ getSubstitution matched preceding following r
      else c # getSubstitution matched preceding following (d # r))"

text \<open>Only the first occurrence of a string pattern is replaced.\<close>

definition replace :: "string \<Rightarrow> string \<Rightarrow> string \<Rightarrow> string" where
  "replace s pat rep =
     (case indexOf s pat of
        None \<Rightarrow> s
      | Some i \<Rightarrow>
          (let preceding = take i s; following = drop (i + length pat) s
           in preceding @ getSubstitution pat preceding following rep @ following))"

section \<open>The ordered sets of webpack-chain\<close>

text \<open>
  \<^verbatim>\<open>config.resolve.extensions\<close> is a \<^verbatim>\<open>ChainedSet\<close> of webpack-chain, a wrapper around a
  JavaScript \<^verbatim>\<open>Set\<close>. A \<^verbatim>\<open>Set\<close> iterates in insertion order and ignores the insertion of a
  value it already holds, so the store is a list without repetitions:
  \<^item> \<^verbatim>\<open>add(value)\<close> is \<^verbatim>\<open>this.store.add(value)\<close>;
  \<^item> \<^verbatim>\<open>prepend(value)\<close> is \<^verbatim>\<open>this.store = new Set([value, ...this.store])\<close>;
  \<^item> \<^verbatim>\<open>merge(arr)\<close> is \<^verbatim>\<open>this.store = new Set([...this.store, ...arr])\<close>;
  \<^item> \<^verbatim>\<open>clear()\<close> empties the store and \<^verbatim>\<open>values()\<close> is \<^verbatim>\<open>[...this.store]\<close>.
\<close>

type_synonym 'a chainedSet = "'a list"

definition add :: "'a \<Rightarrow> 'a chainedSet \<Rightarrow> 'a chainedSet" where
  "add v store = (if v \<in> set store then store else store @ [v])"

definition prepend :: "'a \<Rightarrow> 'a chainedSet \<Rightarrow> 'a chainedSet" where
  "prepend v store = v # removeAll v store"

definition merge :: "'a list \<Rightarrow> 'a chainedSet \<Rightarrow> 'a chainedSet" where
  "merge arr store = foldl (\<lambda>s v. add v s) store arr"

definition clear :: "'a chainedSet \<Rightarrow> 'a chainedSet" where
  "clear store = []"

definition values_of :: "'a chainedSet \<Rightarrow> 'a list" where
  "values_of store = store"

section \<open>The extension list\<close>

text \<open>
  Lines 195 to 207 of \<^verbatim>\<open>base.ts\<close>: twelve calls of \<^verbatim>\<open>add\<close>, the platform-qualified
  extension before the generic one, for ts, js, mjs, css, scss and json.
\<close>

definition add_extensions :: "string \<Rightarrow> string chainedSet \<Rightarrow> string chainedSet" where
  "add_extensions platform exts =
     (let exts = add (''.'' @ platform @ ''.ts'') exts;
          exts = add ''.ts'' exts;
          exts = add (''.'' @ platform @ ''.js'') exts;
          exts = add ''.js'' exts;
          exts = add (''.'' @ platform @ ''.mjs'') exts;
          exts = add ''.mjs'' exts;
          exts = add (''.'' @ platform @ ''.css'') exts;
          exts = add ''.css'' exts;
          exts = add (''.'' @ platform @ ''.scss'') exts;
          exts = add ''.scss'' exts;
          exts = add (''.'' @ platform @ ''.json'') exts;
          exts = add ''.json'' exts
      in exts)"

text \<open>
  Lines 211 to 220: every extension is pushed to a new array, followed by its copy with
  the first \<^verbatim>\<open>visionos\<close> replaced by \<^verbatim>\<open>ios\<close> when it includes \<^verbatim>\<open>visionos\<close>; the set is
  then cleared and refilled from the array.
\<close>

definition push_extension :: "string list \<Rightarrow> string \<Rightarrow> string list" where
  "push_extension newExtensions ext =
     (let newExtensions = newExtensions @ [ext]
      in if str_includes ext ''visionos''
         then newExtensions @ [replace ext ''visionos'' ''ios'']
         else newExtensions)"

definition visionos_extensions :: "string chainedSet \<Rightarrow> string chainedSet" where
  "visionos_extensions exts =
     (let extensions = values_of exts;
          newExtensions = foldl push_extension [] extensions
      in merge newExtensions (clear exts))"

text \<open>Lines 195 to 221 together: what the base configuration does to the extension set.\<close>

definition resolve_extensions :: "string \<Rightarrow> string chainedSet \<Rightarrow> string chainedSet" where
  "resolve_extensions platform exts =
     (let exts = add_extensions platform exts
      in if platform = ''visionos'' then visionos_extensions exts else exts)"

text \<open>
  The specification describes the same steps as a function of the platform and of a
  list of generic extensions, \<^verbatim>\<open>buildExtensionList(platform, baseExtensions)\<close>. The source
  has no such function: its list of generic extensions is written out in the twelve
  calls above. \<open>buildExtensionList\<close> runs the steps of the source, from the empty set, for
  a list that is a parameter.
\<close>

fun add_generic :: "string \<Rightarrow> string list \<Rightarrow> string chainedSet \<Rightarrow> string chainedSet" where
  "add_generic platform [] exts = exts"
| "add_generic platform (e # es) exts =
     add_generic platform es (add (''.'' @ e) (add (''.'' @ platform @ ''.'' @ e) exts))"

definition buildExtensionList :: "string \<Rightarrow> string list \<Rightarrow> string list" where
  "buildExtensionList platform baseExtensions =
     (let exts = add_generic platform baseExtensions []
      in values_of (if platform = ''visionos'' then visionos_extensions exts else exts))"

definition generic_extensions :: "string list" where
  "generic_extensions = [''ts'', ''js'', ''mjs'', ''css'', ''scss'', ''json'']"

text \<open>Positions in a list: \<open>a\<close> directly followed by \<open>b\<close>, and \<open>b\<close> somewhere after \<open>a\<close>.\<close>

fun immediately_before :: "'a \<Rightarrow> 'a \<Rightarrow> 'a list \<Rightarrow> bool" where
  "immediately_before a b (x # y # zs) = ((x = a \<and> y = b) \<or> immediately_before a b (y # zs))"
| "immediately_before a b [x] = False"
| "immediately_before a b [] = False"

fun occurs_after :: "'a \<Rightarrow> 'a \<Rightarrow> 'a list \<Rightarrow> bool" where
  "occurs_after a b [] = False"
| "occurs_after a b (x # xs) = ((x = a \<and> b \<in> set xs) \<or> occurs_after a b xs)"

section \<open>Regular expressions\<close>

text \<open>
  The two patterns that \<^verbatim>\<open>base.ts\<close> hands to \<^verbatim>\<open>ContextExclusionPlugin\<close> are built from
  literal text, groups, an alternation, the classes \<^verbatim>\<open>.\<close> and \<^verbatim>\<open>\w\<close> under \<^verbatim>\<open>*\<close> and \<^verbatim>\<open>+\<close>,
  and the anchor \<^verbatim>\<open>$\<close> at the end. A dot matches every character but a line terminator,
  which among the characters of \<open>string\<close> are the line feed and the carriage return;
  \<^verbatim>\<open>\w\<close> matches the ASCII letters, the digits and the underscore. Quantifiers occur on
  the two classes only, and capture groups do not change what \<^verbatim>\<open>test\<close> answers.
\<close>

datatype cls = AnyChar | WordChar

datatype rx = Lit string | Star cls | Plus cls | Seq rx rx | Alt "rx list" | Group rx

record regexp =
  body :: rx
  end_anchor :: bool

definition word_char :: "char \<Rightarrow> bool" where
  "word_char c =
     (c \<in> set ''abcdefghijklmnopqrstuvwxyz'' \<or> c \<in> set ''ABCDEFGHIJKLMNOPQRSTUVWXYZ'' \<or>
      c \<in> set ''0123456789'' \<or> c = CHR ''_'')"

fun in_cls :: "cls \<Rightarrow> char \<Rightarrow> bool" where
  "in_cls AnyChar c = (c \<noteq> CHR 0x0A \<and> c \<noteq> CHR 0x0D)"
| "in_cls WordChar c = word_char c"

text \<open>\<open>matches r s\<close>: the whole of \<open>s\<close> is matched by \<open>r\<close>.\<close>

fun matches :: "rx \<Rightarrow> string \<Rightarrow> bool" where
  "matches (Lit l) s = (s = l)"
| "matches (Star c) s = list_all (in_cls c) s"
| "matches (Plus c) s = (s \<noteq> [] \<and> list_all (in_cls c) s)"
| "matches (Seq a b) s =
     list_ex (\<lambda>k. matches a (take k s) \<and> matches b (drop k s)) [0..<Suc (length s)]"
| "matches (Alt rs) s = list_ex (\<lambda>r. matches r s) rs"
| "matches (Group r) s = matches r s"

text \<open>
  \<^verbatim>\<open>re.test(s)\<close> looks for a match that starts anywhere in \<open>s\<close>; with \<^verbatim>\<open>$\<close> the match
  has to reach the end of \<open>s\<close>.
\<close>

definition test :: "regexp \<Rightarrow> string \<Rightarrow> bool" where
  "test re s =
     list_ex (\<lambda>i.
       if end_anchor re then matches (body re) (drop i s)
       else list_ex (\<lambda>n. matches (body re) (take n (drop i s))) [0..<Suc (length s - i)])
     [0..<Suc (length s)]"

section \<open>The configuration object\<close>

text \<open>
  Of the webpack-chain configuration the model keeps the extension set and the named
  plugins. \<^verbatim>\<open>config.plugin(name).use(plugin, args)\<close> stores the plugin under its name: a
  name already present keeps its place and gets the new plugin, a new name goes last.
\<close>

datatype plugin =
  PlatformSuffixPlugin "string list"
| ContextExclusionPlugin regexp

record config =
  extensions :: "string chainedSet"
  plugins :: "(string \<times> plugin) list"

fun use :: "string \<Rightarrow> plugin \<Rightarrow> (string \<times> plugin) list \<Rightarrow> (string \<times> plugin) list" where
  "use name p [] = [(name, p)]"
| "use name p ((n, q) # ps) = (if n = name then (name, p) # ps else (n, q) # use name p ps)"

datatype error = ConfigurationError | ModuleNotFound

section \<open>The platform helpers\<close>

text \<open>
  \<^verbatim>\<open>getAvailablePlatforms()\<close> lists the known platforms; its module, \<^verbatim>\<open>helpers/platform\<close>,
  is not part of the sources at hand, so the list is a parameter of the model.
\<close>

text \<open>
  Modelled from the spec: \<^verbatim>\<open>getPlatformName()\<close> of \<^verbatim>\<open>helpers/platform\<close> is not part of the
  sources at hand. Section 7 of the specification: an unknown platform fails fast with a
  configuration error, and no platform is guessed in its place. The identifier asked for
  and the list of known platforms, which the helper reads from its environment, are
  arguments here.
\<close>

definition getPlatformName :: "string list \<Rightarrow> string \<Rightarrow> error + string" where
  "getPlatformName available requested =
     (if requested \<in> set available then Inr requested else Inl ConfigurationError)"

section \<open>The exclusion patterns\<close>

text \<open>
  Line 427: \<^verbatim>\<open>new RegExp(`(.*)App_Resources(.*)`)\<close>.
\<close>

definition App_Resources :: regexp where
  "App_Resources =
     \<lparr>body = Seq (Group (Star AnyChar)) (Seq (Lit ''App_Resources'') (Group (Star AnyChar))),
      end_anchor = False\<rparr>"

text \<open>
  Lines 431 to 433: the known platforms other than the active one, joined by a bar.
\<close>

definition otherPlatforms :: "string list \<Rightarrow> string \<Rightarrow> string list" where
  "otherPlatforms available active = filter (\<lambda>platform. platform \<noteq> active) available"

fun join :: "string \<Rightarrow> string list \<Rightarrow> string" where
  "join sep [] = []"
| "join sep [x] = x"
| "join sep (x # y # ys) = x @ sep @ join sep (y # ys)"

definition otherPlatformsRE :: "string list \<Rightarrow> string \<Rightarrow> string" where
  "otherPlatformsRE available active = join ''|'' (otherPlatforms available active)"

text \<open>
  Line 438: \<^verbatim>\<open>new RegExp(`\\.(${otherPlatformsRE})\\.(\\w+)$`)\<close>. The text between the
  parentheses is read as a pattern. For platform names made of word characters, as
  \<^verbatim>\<open>android\<close>, \<^verbatim>\<open>ios\<close> and \<^verbatim>\<open>visionos\<close> are, it is the alternation of the names as literal
  text, and the empty pattern, which matches the empty string, when no other platform is
  known. The model reads the joined text that way; the theorems below assume names
  of that kind.
\<close>

definition platform_name :: "string \<Rightarrow> bool" where
  "platform_name p = (p \<noteq> [] \<and> list_all word_char p)"

definition alternation :: "string list \<Rightarrow> rx" where
  "alternation names = (if names = [] then Lit [] else Alt (map Lit names))"

definition Other_Platforms :: "string list \<Rightarrow> string \<Rightarrow> regexp" where
  "Other_Platforms available active =
     \<lparr>body = Seq (Lit ''.'')
              (Seq (Group (alternation (otherPlatforms available active)))
                (Seq (Lit ''.'') (Group (Plus WordChar)))),
      end_anchor = True\<rparr>"

text \<open>
  \<^verbatim>\<open>ContextExclusionPlugin\<close> drops from a \<^verbatim>\<open>require.context\<close> every file whose path its
  pattern matches. A path is excluded when one of the configured plugins drops it.
\<close>

fun excludes :: "plugin \<Rightarrow> string \<Rightarrow> bool" where
  "excludes (ContextExclusionPlugin re) path = test re path"
| "excludes (PlatformSuffixPlugin exts) path = False"

definition excluded :: "config \<Rightarrow> string \<Rightarrow> bool" where
  "excluded c path = list_ex (\<lambda>(name, p). excludes p path) (plugins c)"

section \<open>The stylesheet import resolver\<close>

text \<open>
  Lines 343 to 369: the \<^verbatim>\<open>resolve\<close> option handed to postcss-import. It calls four
  functions of the host: \<^verbatim>\<open>extname\<close> and \<^verbatim>\<open>resolve\<close> of the path module, \<^verbatim>\<open>require.resolve\<close>,
  which throws when it finds no module, and \<^verbatim>\<open>existsSync\<close>. They are parameters of the
  model. Every call of \<^verbatim>\<open>require.resolve\<close> and of \<^verbatim>\<open>existsSync\<close> is recorded, in the order
  of the calls; the message that line 361 writes to the console is left out.
\<close>

record host =
  extname :: "string \<Rightarrow> string"
  path_resolve :: "string \<Rightarrow> string \<Rightarrow> string"
  require_resolve :: "string \<Rightarrow> string \<Rightarrow> error + string"
  existsSync :: "string \<Rightarrow> bool"

datatype lookup = RequireResolve string string | ExistsSync string

text \<open>The body of the loop over the platform targets; the empty string is falsy.\<close>

fun resolve_targets ::
  "host \<Rightarrow> string \<Rightarrow> string \<Rightarrow> string list \<Rightarrow> (error + string) \<times> lookup list" where
  "resolve_targets h id' baseDir [] = (Inr id', [])"
| "resolve_targets h id' baseDir (platformTarget # rest) =
     (let ext = extname h id';
          platformExt = (if ext \<noteq> [] then ''.'' @ platformTarget @ ext else [])
      in if \<not> str_includes id' platformExt
         then
           (let platformRequest = replace id' ext platformExt;
                extPath = path_resolve h baseDir platformRequest
            in case require_resolve h platformRequest baseDir of
                 Inr found \<Rightarrow> (Inr found, [RequireResolve platformRequest baseDir])
               | Inl thrown \<Rightarrow>
                   if existsSync h extPath
                   then (Inr extPath, [RequireResolve platformRequest baseDir, ExistsSync extPath])
                   else (case resolve_targets h id' baseDir rest of
                           (result, lookups) \<Rightarrow>
                             (result,
                              RequireResolve platformRequest baseDir # ExistsSync extPath # lookups)))
         else resolve_targets h id' baseDir rest)"

definition platform_targets :: "string \<Rightarrow> string list" where
  "platform_targets platform =
     (if platform = ''visionos'' then [platform, ''ios''] else [platform])"

definition resolve :: "host \<Rightarrow> string \<Rightarrow> string \<Rightarrow> string \<Rightarrow> (error + string) \<times> lookup list" where
  "resolve h platform id' baseDir = resolve_targets h id' baseDir (platform_targets platform)"


section \<open>The base configuration\<close>

text \<open>
  The helpers \<^verbatim>\<open>applyDotEnvPlugin\<close>, \<^verbatim>\<open>applyFileReplacements\<close>, \<^verbatim>\<open>addCopyRule\<close> and
  \<^verbatim>\<open>applyCopyRules\<close> are imported from modules that are not part of the sources at hand.
  \<^verbatim>\<open>addCopyRule\<close> gets a glob and no configuration, so it can only change the state its
  module keeps; the other three get the configuration. They are parameters of the
  model, acting on the configuration and on a state \<open>'g\<close> that outlives a call of the
  builder.
\<close>

record 'g helpers =
  applyDotEnvPlugin :: "config \<times> 'g \<Rightarrow> config \<times> 'g"
  applyFileReplacements :: "config \<times> 'g \<Rightarrow> config \<times> 'g"
  addCopyRule :: "string \<Rightarrow> 'g \<Rightarrow> 'g"
  applyCopyRules :: "config \<times> 'g \<Rightarrow> config \<times> 'g"

text \<open>Lines 417 to 439: the three plugins that depend on the platform.\<close>

definition platform_plugins ::
  "string list \<Rightarrow> string \<Rightarrow> (string \<times> plugin) list \<Rightarrow> (string \<times> plugin) list" where
  "platform_plugins available platform ps =
     (let ps = use ''PlatformSuffixPlugin''
                 (PlatformSuffixPlugin
                    (if platform = ''visionos'' then [platform, ''ios''] else [platform])) ps;
          ps = use ''ContextExclusionPlugin|App_Resources''
                 (ContextExclusionPlugin App_Resources) ps;
          ps = use ''ContextExclusionPlugin|Other_Platforms''
                 (ContextExclusionPlugin (Other_Platforms available platform)) ps
      in ps)"

text \<open>
  The default export of \<^verbatim>\<open>base.ts\<close>, as far as the extension set and the plugins above
  go. The platform is asked for first (line 34); when that call throws, the
  configuration has not been touched.
\<close>

definition base ::
  "'g helpers \<Rightarrow> string list \<Rightarrow> string \<Rightarrow> config \<times> 'g \<Rightarrow> (error + config) \<times> 'g" where
  "base hs available requested cg =
     (case cg of (config, g) \<Rightarrow>
        (case getPlatformName available requested of
           Inl e \<Rightarrow> (Inl e, g)
         | Inr platform \<Rightarrow>
             (let config = config\<lparr>extensions := resolve_extensions platform (extensions config)\<rparr>;
                  config = config\<lparr>plugins := platform_plugins available platform (plugins config)\<rparr>;
                  (config, g) = applyDotEnvPlugin hs (config, g);
                  (config, g) = applyFileReplacements hs (config, g);
                  g = addCopyRule hs ''assets/**'' g;
                  g = addCopyRule hs ''fonts/**'' g;
                  g = addCopyRule hs ''**/*.+(jpg|png)'' g;
                  (config, g) = applyCopyRules hs (config, g)
              in (Inr config, g))))"

section \<open>The configuration for React\<close>

text \<open>
  The second source file builds on the base configuration and then prepends the two
  tsx extensions (line 15). Its platform comes from \<^verbatim>\<open>getPlatform()\<close> of
  \<^verbatim>\<open>helpers/project\<close>, which is not part of the sources at hand: the text it yields in
  the template is the parameter \<open>platform\<close>.
\<close>

definition react_extensions :: "string \<Rightarrow> string chainedSet \<Rightarrow> string chainedSet" where
  "react_extensions platform exts =
     prepend (''.'' @ platform @ ''.tsx'') (prepend ''.tsx'' exts)"

definition react ::
  "'g helpers \<Rightarrow> string list \<Rightarrow> string \<Rightarrow> string \<Rightarrow> config \<times> 'g \<Rightarrow> (error + config) \<times> 'g" where
  "react hs available requested platform cg =
     (case base hs available requested cg of
        (Inl e, g) \<Rightarrow> (Inl e, g)
      | (Inr config, g) \<Rightarrow>
          (Inr (config\<lparr>extensions := react_extensions platform (extensions config)\<rparr>), g))"

section \<open>Terms of the properties\<close>



text \<open>
  A host and helpers for the examples. In the host the extension of a path is the text
  from the last dot of its last component on, when that dot is not the first character
  of the component; a path is resolved by joining it to the directory, no module is
  ever found and the files that exist are listed. The helpers keep the copy rules in a
  set and leave the configuration alone.
\<close>

definition example_host :: "string list \<Rightarrow> host" where
  "example_host files =
     \<lparr>extname = (\<lambda>p.
         let component = rev (takeWhile (\<lambda>c. c \<noteq> CHR ''/'') (rev p));
             after_dot = rev (takeWhile (\<lambda>c. c \<noteq> CHR ''.'') (rev component))
         in if CHR ''.'' \<notin> set component \<or> component = ''..'' \<or>
               Suc (length after_dot) = length component
            then [] else CHR ''.'' # after_dot),
      path_resolve = (\<lambda>dir p. dir @ ''/'' @ p),
      require_resolve = (\<lambda>request dir. Inl ModuleNotFound),
      existsSync = (\<lambda>p. p \<in> set files)\<rparr>"

definition example_helpers :: "string chainedSet helpers" where
  "example_helpers =
     \<lparr>applyDotEnvPlugin = (\<lambda>cg. cg),
      applyFileReplacements = (\<lambda>cg. cg),
      addCopyRule = (\<lambda>glob g. add glob g),
      applyCopyRules = (\<lambda>cg. cg)\<rparr>"

definition empty_config :: config where
  "empty_config = \<lparr>extensions = [], plugins = []\<rparr>"

section \<open>The extension list, worked out\<close>

lemma dot_tail_neq:
  assumes "CHR ''.'' \<notin> set s"
  shows "p @ CHR ''.'' # e \<noteq> s" and "s \<noteq> p @ CHR ''.'' # e"
  using assms by auto

lemma add_extensions_empty:
  "add_extensions p [] =
     [''.'' @ p @ ''.ts'', ''.ts'', ''.'' @ p @ ''.js'', ''.js'', ''.'' @ p @ ''.mjs'', ''.mjs'',
      ''.'' @ p @ ''.css'', ''.css'', ''.'' @ p @ ''.scss'', ''.scss'',
      ''.'' @ p @ ''.json'', ''.json'']"
  by (simp add: add_extensions_def add_def dot_tail_neq)

text \<open>The twelve calls of the source are the generic steps for its six extensions.\<close>

lemma add_generic_fixed: "add_extensions p exts = add_generic p generic_extensions exts"
  by (simp add: add_extensions_def generic_extensions_def)

lemma buildExtensionList_fixed:
  "buildExtensionList p generic_extensions = resolve_extensions p []"
  by (simp add: buildExtensionList_def resolve_extensions_def add_generic_fixed values_of_def)

lemma visionos_list:
  "resolve_extensions ''visionos'' [] =
     [''.visionos.ts'', ''.ios.ts'', ''.ts'', ''.visionos.js'', ''.ios.js'', ''.js'',
      ''.visionos.mjs'', ''.ios.mjs'', ''.mjs'', ''.visionos.css'', ''.ios.css'', ''.css'',
      ''.visionos.scss'', ''.ios.scss'', ''.scss'', ''.visionos.json'', ''.ios.json'', ''.json'']"
  by code_simp

lemma other_list:
  "p \<noteq> ''visionos'' \<Longrightarrow>
   resolve_extensions p [] =
     [''.'' @ p @ ''.ts'', ''.ts'', ''.'' @ p @ ''.js'', ''.js'', ''.'' @ p @ ''.mjs'', ''.mjs'',
      ''.'' @ p @ ''.css'', ''.css'', ''.'' @ p @ ''.scss'', ''.scss'',
      ''.'' @ p @ ''.json'', ''.json'']"
  by (simp add: resolve_extensions_def add_extensions_empty)

subsection \<open>The scenario of visionos with the single extension ts\<close>

text \<open>
  C2, as stated: for visionos and the generic extensions \<open>[ts]\<close> the list is
  \<open>visionos.ts, ts, ios.ts\<close>. The source pushes the ios copy right after the visionos
  entry it was made from, so the list is another one.
\<close>

theorem visionos_ts_order_counterexample:
  "buildExtensionList ''visionos'' [''ts''] \<noteq> [''.visionos.ts'', ''.ts'', ''.ios.ts'']"
  by code_simp

text \<open>
  C2, amended: for visionos and the generic extensions \<open>[ts]\<close> the list is, in order,
  \<open>visionos.ts, ios.ts, ts\<close>, and the generic entry \<open>ts\<close> occurs once.
\<close>

theorem visionos_ts_order:
  "buildExtensionList ''visionos'' [''ts''] = [''.visionos.ts'', ''.ios.ts'', ''.ts''] \<and>
   count_list (buildExtensionList ''visionos'' [''ts'']) ''.ts'' = 1"
  by code_simp

subsection \<open>The qualified entry and the generic entry\<close>

text \<open>
  C3, as stated: for every platform the qualified entry is immediately before the
  generic one. On visionos the ios copy stands between the two.
\<close>

theorem qualified_before_generic_counterexample:
  "\<not> immediately_before ''.visionos.ts'' ''.ts'' (resolve_extensions ''visionos'' [])"
  by code_simp

text \<open>
  C3, amended: for every platform \<open>p\<close> other than visionos and every generic extension
  \<open>e\<close> of ts, js, mjs, css, scss and json, the list built for \<open>p\<close> has \<open>.p.e\<close>
  immediately before \<open>.e\<close>; in the list built for visionos \<open>.visionos.e\<close> is immediately
  before \<open>.ios.e\<close>, which is immediately before \<open>.e\<close>; and every generic extension is in
  the list, whatever the platform.
\<close>

theorem qualified_before_generic:
  assumes "e \<in> set generic_extensions"
  shows "(platform \<noteq> ''visionos'' \<longrightarrow>
            immediately_before (''.'' @ platform @ ''.'' @ e) (''.'' @ e)
              (resolve_extensions platform []))
       \<and> (platform = ''visionos'' \<longrightarrow>
            immediately_before (''.visionos.'' @ e) (''.ios.'' @ e) (resolve_extensions platform [])
          \<and> immediately_before (''.ios.'' @ e) (''.'' @ e) (resolve_extensions platform []))
       \<and> ''.'' @ e \<in> set (resolve_extensions platform [])"
proof (cases "platform = ''visionos''")
  case True
  with assms show ?thesis
    by (auto simp: generic_extensions_def visionos_list)
next
  case False
  with assms show ?thesis
    by (auto simp: generic_extensions_def other_list)
qed

theorem qualified_before_generic_witness:
  "''css'' \<in> set generic_extensions
   \<and> immediately_before ''.android.css'' ''.css'' (resolve_extensions ''android'' [])
   \<and> ''.css'' \<in> set (resolve_extensions ''android'' [])
   \<and> immediately_before ''.visionos.css'' ''.ios.css'' (resolve_extensions ''visionos'' [])
   \<and> immediately_before ''.ios.css'' ''.css'' (resolve_extensions ''visionos'' [])"
  using qualified_before_generic [of "''css''" "''android''"]
    qualified_before_generic [of "''css''" "''visionos''"]
  by (simp add: generic_extensions_def)

subsection \<open>The entries of the alias platform\<close>

text \<open>
  C4, as stated: in the list built for visionos every ios entry has its visionos
  counterpart at a later position. The entry \<open>.ios.ts\<close> is in the list, and
  \<open>.visionos.ts\<close> is nowhere after it.
\<close>

theorem alias_entry_later_counterexample:
  "''.ios.ts'' \<in> set (resolve_extensions ''visionos'' []) \<and>
   \<not> occurs_after ''.ios.ts'' ''.visionos.ts'' (resolve_extensions ''visionos'' [])"
  by code_simp

lemma distinct_visionos: "distinct (resolve_extensions ''visionos'' [])"
  by code_simp

lemma alias_entries_all:
  "list_all (\<lambda>ext.
      (str_includes ext ''.ios.'' \<longrightarrow>
         immediately_before (replace ext ''.ios.'' ''.visionos.'') ext
           (resolve_extensions ''visionos'' []))
    \<and> (str_includes ext ''.visionos.'' \<longrightarrow>
         immediately_before ext (replace ext ''.visionos.'' ''.ios.'')
           (resolve_extensions ''visionos'' [])))
     (resolve_extensions ''visionos'' [])"
  by code_simp

text \<open>
  C4, amended: in the list built for visionos, every entry of the form \<open>X.ios.e\<close> has
  the entry \<open>X.visionos.e\<close> at the position immediately before it, so every entry
  \<open>X.visionos.e\<close> is directly followed by \<open>X.ios.e\<close>, at a strictly later position; and
  the list has no duplicate entries.
\<close>

theorem alias_entry_adjacent:
  assumes "ext \<in> set (resolve_extensions ''visionos'' [])"
  shows "(str_includes ext ''.ios.'' \<longrightarrow>
            immediately_before (replace ext ''.ios.'' ''.visionos.'') ext
              (resolve_extensions ''visionos'' []))
       \<and> (str_includes ext ''.visionos.'' \<longrightarrow>
            immediately_before ext (replace ext ''.visionos.'' ''.ios.'')
              (resolve_extensions ''visionos'' []))
       \<and> distinct (resolve_extensions ''visionos'' [])"
  using assms distinct_visionos alias_entries_all
  by (simp only: list_all_iff) blast

theorem alias_entry_adjacent_witness:
  "''.ios.css'' \<in> set (resolve_extensions ''visionos'' []) \<and> str_includes ''.ios.css'' ''.ios.''
   \<and> immediately_before ''.visionos.css'' ''.ios.css'' (resolve_extensions ''visionos'' [])
   \<and> ''.visionos.ts'' \<in> set (resolve_extensions ''visionos'' [])
   \<and> str_includes ''.visionos.ts'' ''.visionos.''
   \<and> immediately_before ''.visionos.ts'' ''.ios.ts'' (resolve_extensions ''visionos'' [])
   \<and> distinct (resolve_extensions ''visionos'' [])"
proof -
  have m: "''.ios.css'' \<in> set (resolve_extensions ''visionos'' [])" by code_simp
  have i: "str_includes ''.ios.css'' ''.ios.''" by code_simp
  have r: "replace ''.ios.css'' ''.ios.'' ''.visionos.'' = ''.visionos.css''" by code_simp
  have m': "''.visionos.ts'' \<in> set (resolve_extensions ''visionos'' [])" by code_simp
  have i': "str_includes ''.visionos.ts'' ''.visionos.''" by code_simp
  have r': "replace ''.visionos.ts'' ''.visionos.'' ''.ios.'' = ''.ios.ts''" by code_simp
  from alias_entry_adjacent [OF m] alias_entry_adjacent [OF m'] i r m i' r' m'
  show ?thesis by simp
qed

subsection \<open>The tsx extensions\<close>

lemma tsx_tail_neq:
  assumes "last s \<noteq> CHR ''x''"
  shows "q @ ''.tsx'' \<noteq> s" and "s \<noteq> q @ ''.tsx''"
  using assms by auto

text \<open>
  C7, as stated: the tsx entries are appended, after the fixed set. In the list for ios
  the entry \<open>.tsx\<close> does not come after \<open>.json\<close>, the last entry of the fixed set.
\<close>

theorem tsx_appended_counterexample:
  "\<not> occurs_after ''.json'' ''.tsx'' (react_extensions ''ios'' (resolve_extensions ''ios'' []))"
  by code_simp

text \<open>
  C7, amended: with the tsx mode the entries \<open>.p.tsx\<close> and \<open>.tsx\<close> are prepended: the
  list is \<open>.p.tsx\<close>, then \<open>.tsx\<close>, then the list of the base configuration, unchanged. So
  the qualified tsx entry is immediately before the generic one and both come before
  the fixed set. This holds whatever text \<open>q\<close> the second file takes for the platform.
\<close>

theorem tsx_prepended:
  "react_extensions q (resolve_extensions p []) =
     (''.'' @ q @ ''.tsx'') # ''.tsx'' # resolve_extensions p []"
proof (cases "p = ''visionos''")
  case True
  then show ?thesis
    by (simp add: react_extensions_def prepend_def visionos_list tsx_tail_neq)
next
  case False
  then show ?thesis
    by (simp add: react_extensions_def prepend_def other_list tsx_tail_neq dot_tail_neq)
qed

section \<open>What the patterns match\<close>

lemma list_ex_upto: "list_ex P [0..<Suc n] \<longleftrightarrow> (\<exists>k\<le>n. P k)"
  by (auto simp add: list_ex_iff less_Suc_eq_le simp del: upt_Suc)

lemma matches_Seq_iff:
  "matches (Seq a b) s \<longleftrightarrow> (\<exists>u v. s = u @ v \<and> matches a u \<and> matches b v)"
proof
  assume "matches (Seq a b) s"
  then obtain k where "matches a (take k s)" "matches b (drop k s)"
    unfolding matches.simps list_ex_upto by blast
  moreover have "s = take k s @ drop k s" by simp
  ultimately show "\<exists>u v. s = u @ v \<and> matches a u \<and> matches b v" by blast
next
  assume "\<exists>u v. s = u @ v \<and> matches a u \<and> matches b v"
  then obtain u v where "s = u @ v" "matches a u" "matches b v" by blast
  then have "length u \<le> length s \<and> matches a (take (length u) s) \<and> matches b (drop (length u) s)"
    by simp
  then show "matches (Seq a b) s"
    unfolding matches.simps list_ex_upto by blast
qed

declare matches.simps(4) [simp del]

lemma test_anchored_iff:
  assumes "end_anchor re"
  shows "test re s \<longleftrightarrow> (\<exists>u v. s = u @ v \<and> matches (body re) v)"
proof
  assume "test re s"
  with assms obtain i where "matches (body re) (drop i s)"
    unfolding test_def list_ex_upto by auto
  moreover have "s = take i s @ drop i s" by simp
  ultimately show "\<exists>u v. s = u @ v \<and> matches (body re) v" by blast
next
  assume "\<exists>u v. s = u @ v \<and> matches (body re) v"
  then obtain u v where "s = u @ v" "matches (body re) v" by blast
  then have "length u \<le> length s \<and> matches (body re) (drop (length u) s)" by simp
  with assms show "test re s"
    unfolding test_def list_ex_upto by auto
qed

lemma test_unanchored_iff:
  assumes "\<not> end_anchor re"
  shows "test re s \<longleftrightarrow> (\<exists>u v w. s = u @ v @ w \<and> matches (body re) v)"
proof
  assume "test re s"
  with assms obtain i n where "matches (body re) (take n (drop i s))"
    unfolding test_def list_ex_upto by auto
  moreover have "s = take i s @ take n (drop i s) @ drop n (drop i s)"
    by (metis append_take_drop_id)
  ultimately show "\<exists>u v w. s = u @ v @ w \<and> matches (body re) v" by blast
next
  assume "\<exists>u v w. s = u @ v @ w \<and> matches (body re) v"
  then obtain u v w where s: "s = u @ v @ w" and m: "matches (body re) v" by blast
  have "length u \<le> length s" "length v \<le> length s - length u"
    using s by simp_all
  moreover have "matches (body re) (take (length v) (drop (length u) s))"
    using s m by simp
  ultimately have "\<exists>k\<le>length s. \<exists>n\<le>length s - k. matches (body re) (take n (drop k s))"
    by blast
  with assms show "test re s"
    unfolding test_def list_ex_upto by simp
qed

lemma matches_alternation:
  "matches (alternation names) s \<longleftrightarrow> (if names = [] then s = [] else s \<in> set names)"
  by (auto simp: alternation_def list_ex_iff)

lemma in_cls_WordChar: "in_cls WordChar = word_char"
  by (rule ext) simp

lemma matches_App_Resources:
  "matches (body App_Resources) v \<longleftrightarrow>
     (\<exists>a c. v = a @ ''App_Resources'' @ c \<and>
        list_all (in_cls AnyChar) a \<and> list_all (in_cls AnyChar) c)"
  by (simp add: App_Resources_def matches_Seq_iff) blast

lemma test_App_Resources:
  "test App_Resources path \<longleftrightarrow> (\<exists>u w. path = u @ ''App_Resources'' @ w)"
proof
  have n: "\<not> end_anchor App_Resources"
    by (simp add: App_Resources_def)
  assume "test App_Resources path"
  then obtain u v w where "path = u @ v @ w" "matches (body App_Resources) v"
    unfolding test_unanchored_iff [OF n] by blast
  then obtain a c where "path = u @ (a @ ''App_Resources'' @ c) @ w"
    unfolding matches_App_Resources by blast
  then have "path = (u @ a) @ ''App_Resources'' @ (c @ w)" by simp
  then show "\<exists>u w. path = u @ ''App_Resources'' @ w" by blast
next
  have n: "\<not> end_anchor App_Resources"
    by (simp add: App_Resources_def)
  assume "\<exists>u w. path = u @ ''App_Resources'' @ w"
  then obtain u w where p: "path = u @ ''App_Resources'' @ w" by blast
  have "''App_Resources'' = [] @ ''App_Resources'' @ [] \<and>
        list_all (in_cls AnyChar) [] \<and> list_all (in_cls AnyChar) []"
    by simp
  then have "matches (body App_Resources) ''App_Resources''"
    unfolding matches_App_Resources by blast
  with p show "test App_Resources path"
    unfolding test_unanchored_iff [OF n] by blast
qed

lemma matches_Other_Platforms:
  "matches (body (Other_Platforms available active)) v \<longleftrightarrow>
     (\<exists>q w. v = ''.'' @ q @ ''.'' @ w \<and>
        matches (alternation (otherPlatforms available active)) q \<and>
        w \<noteq> [] \<and> list_all word_char w)"
  by (simp add: Other_Platforms_def matches_Seq_iff in_cls_WordChar) blast

lemma test_Other_Platforms:
  "test (Other_Platforms available active) path \<longleftrightarrow>
     (\<exists>u q w. path = u @ ''.'' @ q @ ''.'' @ w \<and>
        matches (alternation (otherPlatforms available active)) q \<and>
        w \<noteq> [] \<and> list_all word_char w)"
proof -
  have "end_anchor (Other_Platforms available active)"
    by (simp add: Other_Platforms_def)
  from test_anchored_iff [OF this] show ?thesis
    unfolding matches_Other_Platforms by blast
qed

lemma split_last_dot:
  assumes "a @ CHR ''.'' # b = c @ CHR ''.'' # d" "CHR ''.'' \<notin> set b" "CHR ''.'' \<notin> set d"
  shows "a = c \<and> b = d"
  using assms
  by (auto simp: append_eq_append_conv2 append_eq_Cons_conv Cons_eq_append_conv)

lemma word_char_not_dot: "word_char c \<Longrightarrow> c \<noteq> CHR ''.''"
  by (auto simp: word_char_def)

lemma word_no_dot: "list_all word_char w \<Longrightarrow> CHR ''.'' \<notin> set w"
  by (auto simp: list_all_iff dest: word_char_not_dot)

lemma platform_name_no_dot: "platform_name p \<Longrightarrow> CHR ''.'' \<notin> set p"
  by (simp add: platform_name_def word_no_dot)

lemma indexOf_iff: "indexOf s pat \<noteq> None \<longleftrightarrow> (\<exists>u w. s = u @ pat @ w)"
proof (induction s)
  case Nil
  then show ?case by simp
next
  case (Cons c cs)
  show ?case
  proof (cases "prefix pat (c # cs)")
    case True
    then obtain w where "c # cs = [] @ pat @ w" by (auto simp: prefix_def)
    then have "\<exists>u w. c # cs = u @ pat @ w" by blast
    moreover have "indexOf (c # cs) pat = Some 0" using True by simp
    ultimately show ?thesis by simp
  next
    case False
    have "(\<exists>u w. c # cs = u @ pat @ w) \<longleftrightarrow> (\<exists>u w. cs = u @ pat @ w)"
    proof
      assume "\<exists>u w. c # cs = u @ pat @ w"
      then obtain u w where e: "c # cs = u @ pat @ w" by blast
      with False have "u \<noteq> []" by (auto simp: prefix_def)
      with e obtain u' where "u = c # u'" "cs = u' @ pat @ w"
        by (cases u) auto
      then show "\<exists>u w. cs = u @ pat @ w" by blast
    next
      assume "\<exists>u w. cs = u @ pat @ w"
      then obtain u w where "cs = u @ pat @ w" by blast
      then have "c # cs = (c # u) @ pat @ w" by simp
      then show "\<exists>u w. c # cs = u @ pat @ w" by blast
    qed
    moreover have "indexOf (c # cs) pat \<noteq> None \<longleftrightarrow> indexOf cs pat \<noteq> None"
      using False by simp
    ultimately show ?thesis using Cons.IH by simp
  qed
qed

lemma str_includes_iff: "str_includes s pat \<longleftrightarrow> (\<exists>u w. s = u @ pat @ w)"
  unfolding str_includes_def by (rule indexOf_iff)

lemma excluded_platform_plugins:
  "excluded \<lparr>extensions = exts, plugins = platform_plugins available p []\<rparr> path \<longleftrightarrow>
     test App_Resources path \<or> test (Other_Platforms available p) path"
  by (simp add: excluded_def platform_plugins_def)

lemma Other_Platforms_own:
  assumes "platform_name p" and "\<forall>n\<in>set available. platform_name n"
  shows "\<not> test (Other_Platforms available p) (path @ ''.'' @ p @ ''.ts'')"
proof
  assume "test (Other_Platforms available p) (path @ ''.'' @ p @ ''.ts'')"
  then obtain u q w where e: "path @ ''.'' @ p @ ''.ts'' = u @ ''.'' @ q @ ''.'' @ w"
    and q: "matches (alternation (otherPlatforms available p)) q"
    and w: "list_all word_char w"
    unfolding test_Other_Platforms by blast
  have qd: "CHR ''.'' \<notin> set q" and qp: "q \<noteq> p"
  proof -
    show "CHR ''.'' \<notin> set q"
    proof (cases "otherPlatforms available p = []")
      case True
      with q show ?thesis by (simp add: matches_alternation)
    next
      case False
      with q have "q \<in> set available" by (simp add: matches_alternation otherPlatforms_def)
      with assms(2) have "platform_name q" by blast
      then show ?thesis by (rule platform_name_no_dot)
    qed
    show "q \<noteq> p"
    proof (cases "otherPlatforms available p = []")
      case True
      with q have "q = []" by (simp add: matches_alternation)
      with assms(1) show ?thesis by (auto simp: platform_name_def)
    next
      case False
      with q show ?thesis by (simp add: matches_alternation otherPlatforms_def)
    qed
  qed
  from e have "(path @ ''.'' @ p) @ CHR ''.'' # ''ts'' = (u @ ''.'' @ q) @ CHR ''.'' # w"
    by simp
  then have "path @ ''.'' @ p = u @ ''.'' @ q"
    using split_last_dot [of "path @ ''.'' @ p" "''ts''" "u @ ''.'' @ q" w] word_no_dot [OF w]
    by simp
  then have "path @ CHR ''.'' # p = u @ CHR ''.'' # q" by simp
  then have "p = q"
    using split_last_dot [of path p u q] platform_name_no_dot [OF assms(1)] qd by simp
  with qp show False by simp
qed

lemma Other_Platforms_other:
  assumes "q \<in> set available" and "q \<noteq> p" and "w \<noteq> []" and "list_all word_char w"
  shows "test (Other_Platforms available p) (path @ ''.'' @ q @ ''.'' @ w)"
proof -
  have "q \<in> set (otherPlatforms available p)"
    using assms by (simp add: otherPlatforms_def)
  then have "matches (alternation (otherPlatforms available p)) q"
    by (auto simp: matches_alternation)
  with assms show ?thesis
    unfolding test_Other_Platforms by blast
qed

subsection \<open>Files of the active platform and of the other platforms\<close>

text \<open>
  C1, as stated: the two patterns together match no path that ends in \<open>.p.ts\<close> for the
  active platform \<open>p\<close>. The pattern for \<^verbatim>\<open>App_Resources\<close> looks at the directory, not at the
  suffix: on ios it excludes the ios file below.
\<close>

theorem own_platform_not_excluded_counterexample:
  "excluded \<lparr>extensions = [], plugins = platform_plugins [''android'', ''ios'', ''visionos''] ''ios'' []\<rparr>
     ''App_Resources/iOS/main.ios.ts''"
proof -
  have "''App_Resources/iOS/main.ios.ts'' = [] @ ''App_Resources'' @ ''/iOS/main.ios.ts''"
    by simp
  then have "test App_Resources ''App_Resources/iOS/main.ios.ts''"
    unfolding test_App_Resources by blast
  then show ?thesis
    by (simp add: excluded_platform_plugins)
qed

text \<open>
  C1, amended: for every active platform \<open>p\<close> and every other known platform \<open>q\<close>, with
  platform names made of word characters, the pattern for the other platforms matches
  no path ending in \<open>.p.ts\<close>; the two patterns together exclude such a path exactly
  when it includes \<^verbatim>\<open>App_Resources\<close>; and they exclude every path ending in \<open>.q.ts\<close>.
\<close>

theorem other_platforms_excluded:
  assumes "platform_name p" and "\<forall>n\<in>set available. platform_name n"
    and "q \<in> set available" and "q \<noteq> p"
  shows "\<not> test (Other_Platforms available p) (path @ ''.'' @ p @ ''.ts'')
       \<and> (excluded \<lparr>extensions = exts, plugins = platform_plugins available p []\<rparr>
             (path @ ''.'' @ p @ ''.ts'')
           \<longleftrightarrow> str_includes (path @ ''.'' @ p @ ''.ts'') ''App_Resources'')
       \<and> excluded \<lparr>extensions = exts, plugins = platform_plugins available p []\<rparr>
             (path @ ''.'' @ q @ ''.ts'')"
proof -
  have own: "\<not> test (Other_Platforms available p) (path @ ''.'' @ p @ ''.ts'')"
    using assms(1,2) by (rule Other_Platforms_own)
  have "list_all word_char ''ts''" by (simp add: word_char_def)
  with assms(3,4) have "test (Other_Platforms available p) (path @ ''.'' @ q @ ''.'' @ ''ts'')"
    by (intro Other_Platforms_other) simp_all
  then have other: "test (Other_Platforms available p) (path @ ''.'' @ q @ ''.ts'')" by simp
  show ?thesis
    using own other
    by (simp only: excluded_platform_plugins test_App_Resources str_includes_iff) blast
qed

theorem other_platforms_excluded_witness:
  "platform_name ''ios'' \<and> list_all platform_name [''android'', ''ios'', ''visionos'']
   \<and> ''android'' \<in> set [''android'', ''ios'', ''visionos''] \<and> ''android'' \<noteq> ''ios''
   \<and> \<not> test (Other_Platforms [''android'', ''ios'', ''visionos''] ''ios'') ''main.ios.ts''
   \<and> excluded
        \<lparr>extensions = [], plugins = platform_plugins [''android'', ''ios'', ''visionos''] ''ios'' []\<rparr>
        ''main.android.ts''"
proof -
  have h1: "platform_name ''ios''"
    by (simp add: platform_name_def word_char_def)
  have h2: "\<forall>n\<in>set [''android'', ''ios'', ''visionos'']. platform_name n"
    by (simp add: platform_name_def word_char_def)
  have h3: "''android'' \<in> set [''android'', ''ios'', ''visionos'']" by simp
  have h4: "''android'' \<noteq> ''ios''" by simp
  from other_platforms_excluded [OF h1 h2 h3 h4, of "''main''" "[]"] h1 h2
  show ?thesis by (simp add: list_all_iff)
qed

subsection \<open>Files of ios in a build for visionos\<close>

text \<open>
  C9: when the active platform is visionos and ios is among the known platforms, whose
  names are made of word characters, the pattern for the other platforms matches every
  path that ends in \<open>.ios.\<close> followed by a word; and yet the extension list for visionos
  holds the entry \<open>.ios.e\<close> for every generic extension \<open>e\<close>.
\<close>

theorem ios_excluded_on_visionos:
  assumes "''ios'' \<in> set available" and "\<forall>n\<in>set available. platform_name n"
    and "w \<noteq> []" and "list_all word_char w"
  shows "test (Other_Platforms available ''visionos'') (path @ ''.ios.'' @ w)
       \<and> (\<forall>e\<in>set generic_extensions. ''.ios.'' @ e \<in> set (resolve_extensions ''visionos'' []))"
proof -
  have "test (Other_Platforms available ''visionos'') (path @ ''.'' @ ''ios'' @ ''.'' @ w)"
    using assms(1,3,4) by (intro Other_Platforms_other) simp_all
  moreover have "\<forall>e\<in>set generic_extensions. ''.ios.'' @ e \<in> set (resolve_extensions ''visionos'' [])"
    by (simp add: generic_extensions_def visionos_list)
  ultimately show ?thesis by simp
qed

theorem ios_excluded_on_visionos_witness:
  "''ios'' \<in> set [''android'', ''ios'', ''visionos'']
   \<and> list_all platform_name [''android'', ''ios'', ''visionos'']
   \<and> ''ts'' \<noteq> [] \<and> list_all word_char ''ts''
   \<and> test (Other_Platforms [''android'', ''ios'', ''visionos''] ''visionos'') ''app/main.ios.ts''
   \<and> ''.ios.ts'' \<in> set (resolve_extensions ''visionos'' [])"
proof -
  have h1: "''ios'' \<in> set [''android'', ''ios'', ''visionos'']" by simp
  have h2: "\<forall>n\<in>set [''android'', ''ios'', ''visionos'']. platform_name n"
    by (simp add: platform_name_def word_char_def)
  have h3: "''ts'' \<noteq> []" by simp
  have h4: "list_all word_char ''ts''" by (simp add: word_char_def)
  from ios_excluded_on_visionos [OF h1 h2 h3 h4, of "''app/main''"] h2 h4
  show ?thesis by (simp add: generic_extensions_def list_all_iff)
qed

section \<open>The stylesheet import resolver, step by step\<close>

lemma indexOf_empty: "indexOf s [] = Some 0"
  by (cases s) simp_all





lemma resolve_targets_no_ext:
  "extname h id' = [] \<Longrightarrow> resolve_targets h id' baseDir ts = (Inr id', [])"
  by (induction ts) (simp_all add: str_includes_def indexOf_empty)





subsection \<open>The candidates and their order\<close>




subsection \<open>Specifiers without an extension\<close>

text \<open>
  C10: for every platform and base directory, a specifier whose extension is empty is
  returned unchanged, and neither \<^verbatim>\<open>require.resolve\<close> nor \<^verbatim>\<open>existsSync\<close> is called.
\<close>

theorem resolve_without_extension:
  assumes "extname h id' = []"
  shows "resolve h platform id' baseDir = (Inr id', [])"
  using assms unfolding resolve_def by (rule resolve_targets_no_ext)

theorem resolve_without_extension_witness:
  "extname (example_host [''/app/theme.ios'']) ''theme'' = []
   \<and> resolve (example_host [''/app/theme.ios'']) ''ios'' ''theme'' ''/app'' = (Inr ''theme'', [])"
proof -
  have h: "extname (example_host [''/app/theme.ios'']) ''theme'' = []"
    by code_simp
  from resolve_without_extension [OF h] h show ?thesis by simp
qed

section \<open>The builder as a whole\<close>

subsection \<open>Unknown platforms\<close>

text \<open>
  C6: for every platform identifier that is not among the known platforms the builder
  ends with a configuration error; it returns no configuration, so no extension list
  and no exclusion pattern has been derived, for this or for any other platform, and
  the state of the helpers is as it was.
\<close>

theorem unknown_platform_fails_fast:
  assumes "requested \<notin> set available"
  shows "base hs available requested (config, g) = (Inl ConfigurationError, g)"
  using assms by (simp add: base_def getPlatformName_def)

theorem unknown_platform_fails_fast_witness:
  "''windows'' \<notin> set [''android'', ''ios'', ''visionos'']
   \<and> base example_helpers [''android'', ''ios'', ''visionos''] ''windows'' (empty_config, [])
       = (Inl ConfigurationError, [])"
proof -
  have h: "''windows'' \<notin> set [''android'', ''ios'', ''visionos'']" by simp
  from unknown_platform_fails_fast [OF h] h show ?thesis by simp
qed

subsection \<open>Running the builder twice\<close>






end
